theory Spec2Isabelle
  imports Main
begin

section \<open>Python values, exceptions and the world the scripts run in\<close>

text \<open>
  The three scripts (\<^verbatim>\<open>quick-capture-client.py\<close>, \<^verbatim>\<open>working-capture.py\<close>,
  \<^verbatim>\<open>test-capture.py\<close>) each hold one function that posts a text snippet to
  \<^verbatim>\<open>/api/capture\<close>. They are embedded as functions over an explicit world (the
  requests sent so far and what was printed), returning either a raised exception
  (\<open>Inl\<close>) or the value handed back to the caller (\<open>Inr\<close>).

  A Python \<^verbatim>\<open>str\<close> is a sequence of code points. It may hold lone surrogates
  (U+D800 to U+DFFF): a command-line argument with bytes that are not UTF-8 does, and
  so does a JSON string decoded from an escape such as \<^verbatim>\<open>\ud800\<close>. Such a text
  cannot be encoded as UTF-8. Texts that are known to be free of them (the constants
  of the scripts, exception messages, \<^verbatim>\<open>response.text\<close>, the keys the scripts look
  up) are kept as \<open>string\<close>; \<open>plain\<close> reads one as a \<^verbatim>\<open>str\<close>.
\<close>

type_synonym pystr = "nat list"

definition plain :: "string \<Rightarrow> pystr" where
  "plain s = map of_char s"

definition is_surrogate :: "nat \<Rightarrow> bool" where
  "is_surrogate c = (0xD800 \<le> c \<and> c \<le> 0xDFFF)"

definition encodable :: "pystr \<Rightarrow> bool" where
  "encodable s = list_all (\<lambda>c. \<not> is_surrogate c) s"

text \<open>
  A value decoded from JSON is a Python object: \<^verbatim>\<open>None\<close>, a bool, an int, a float, a
  str, a list or a dict with string keys. A dict is an association list in insertion
  order, read through \<open>map_of\<close>. A float is kept as mantissa and binary exponent; no
  function of the scripts looks inside a number.
\<close>

datatype pyval =
    PNone
  | PBool bool
  | PInt int
  | PFloat int int
  | PStr pystr
  | PList "pyval list"
  | PDict "(string \<times> pyval) list"

text \<open>
  The exceptions that can reach the handlers of the scripts. All but
  \<open>KeyboardInterrupt\<close> are subclasses of Python's \<^verbatim>\<open>Exception\<close>; \<open>ConnectionError\<close>,
  \<open>Timeout\<close> and \<open>RequestException\<close> stand for \<^verbatim>\<open>requests.exceptions.ConnectionError\<close>
  (connection refused, DNS failure, connect timeout), \<^verbatim>\<open>requests.exceptions.ReadTimeout\<close>
  and every other transport failure of the \<^verbatim>\<open>requests\<close> library;
  \<open>UnicodeEncodeError\<close> is what \<^verbatim>\<open>print\<close> raises for a text the standard output
  cannot encode. Each carries the text that \<^verbatim>\<open>str(e)\<close> yields, which never holds a
  lone surrogate (Python writes one as an escape there).
\<close>

datatype exn =
    ConnectionError string
  | Timeout string
  | RequestException string
  | JSONDecodeError string
  | AttributeError string
  | TypeError string
  | KeyError string
  | UnicodeEncodeError string
  | KeyboardInterrupt

fun str :: "exn \<Rightarrow> string" where
  "str (ConnectionError m) = m"
| "str (Timeout m) = m"
| "str (RequestException m) = m"
| "str (JSONDecodeError m) = m"
| "str (AttributeError m) = m"
| "str (TypeError m) = m"
| "str (KeyError m) = m"
| "str (UnicodeEncodeError m) = m"
| "str KeyboardInterrupt = []"

text \<open>The classes named in the \<^verbatim>\<open>except\<close> clauses, as predicates on the exception raised.\<close>

fun isinstance_Exception :: "exn \<Rightarrow> bool" where
  "isinstance_Exception KeyboardInterrupt = False"
| "isinstance_Exception _ = True"

fun isinstance_ConnectionError :: "exn \<Rightarrow> bool" where
  "isinstance_ConnectionError (ConnectionError _) = True"
| "isinstance_ConnectionError _ = False"

definition isinstance_BaseException :: "exn \<Rightarrow> bool" where
  "isinstance_BaseException e = True"

fun is_transport_failure :: "exn \<Rightarrow> bool" where
  "is_transport_failure (ConnectionError _) = True"
| "is_transport_failure (Timeout _) = True"
| "is_transport_failure (RequestException _) = True"
| "is_transport_failure _ = False"

record request =
  http_method :: string
  url :: string
  headers :: "(string \<times> string) list"
  json :: "(string \<times> pyval) list"
  allow_redirects :: bool

record response =
  status_code :: int
  text_str :: string

text \<open>
  A \<open>request\<close> is what a script hands to \<^verbatim>\<open>requests.post\<close>. What the library puts on
  the wire is a sequence of HTTP requests: the POST itself and, since redirects are
  followed, one more request for every redirect response the service answers with. A
  \<open>redirect\<close> is such a response: its status code and its \<^verbatim>\<open>Location\<close>, resolved to
  a URL. Of the headers on the wire only those the script gives are kept.
\<close>

record http_request =
  meth :: string
  target :: string
  header_fields :: "(string \<times> string) list"
  http_body :: "(string \<times> pyval) list option"

datatype redirect = Redirect int string

text \<open>
  A printed line is the format string of the \<^verbatim>\<open>print\<close> call, with \<^verbatim>\<open>{}\<close> for each
  interpolated expression and \<^verbatim>\<open>[U+xxxx]\<close> for each non-ASCII symbol of the source,
  together with the interpolated values in order.

  The standard output is taken to encode as UTF-8, which the symbols of the scripts
  need. Then a line can be written unless an interpolated \<^verbatim>\<open>str\<close> holds a lone
  surrogate. Inside a list or a dict a string is shown by \<^verbatim>\<open>repr\<close>, which escapes
  surrogates, and \<^verbatim>\<open>json.dumps\<close> escapes every non-ASCII character, so only a
  \<^verbatim>\<open>str\<close> interpolated as it is can make the line fail.
\<close>

datatype arg = Fmt pyval | JsonDumps pyval int

datatype line = Line string "arg list"

fun arg_encodable :: "arg \<Rightarrow> bool" where
  "arg_encodable (Fmt (PStr s)) = encodable s"
| "arg_encodable _ = True"

fun line_encodable :: "line \<Rightarrow> bool" where
  "line_encodable (Line t args) = list_all arg_encodable args"

text \<open>
  The world a script runs in. \<open>sent\<close> logs the calls of \<^verbatim>\<open>requests.post\<close> and
  \<open>wire\<close> the HTTP requests that went out; \<open>stdout\<close> and \<open>stderr\<close> hold what was
  written. Two fields describe how the world behaves and never change: \<open>followed\<close>
  gives, for a call of \<^verbatim>\<open>requests.post\<close> (after the calls made before), the redirect
  responses the library follows before the call ends (it gives up after 30, with an
  exception that is then the outcome of the call), and \<open>codec_error\<close> gives the
  text of the \<^verbatim>\<open>UnicodeEncodeError\<close> raised for a line that cannot be written (the
  codec's wording and the position it reports are not modelled).
\<close>

record world =
  sent :: "request list"
  wire :: "http_request list"
  stdout :: "line list"
  stderr :: "exn list"
  followed :: "request list \<Rightarrow> request \<Rightarrow> redirect list"
  codec_error :: "line \<Rightarrow> string"

type_synonym 'a io = "world \<Rightarrow> (exn + 'a) \<times> world"

text \<open>
  The network and the service behind it: given the calls made before and the
  call made now, either the exception that \<^verbatim>\<open>requests.post\<close> raises or the response
  it returns (the last one, when redirects were followed). The JSON decoder behind \<^verbatim>\<open>response.json()\<close> is a parameter \<open>loads\<close>: it
  yields the decoded value, or the message of the decoding error.
\<close>

type_synonym net = "request list \<Rightarrow> request \<Rightarrow> exn + response"

type_synonym decoder = "string \<Rightarrow> string + pyval"

definition return_io :: "'a \<Rightarrow> 'a io" where
  "return_io x = (\<lambda>w. (Inr x, w))"

definition raise_io :: "exn \<Rightarrow> 'a io" where
  "raise_io e = (\<lambda>w. (Inl e, w))"

definition bind_io :: "'a io \<Rightarrow> ('a \<Rightarrow> 'b io) \<Rightarrow> 'b io" where
  "bind_io m f = (\<lambda>w. case m w of (Inl e, w') \<Rightarrow> (Inl e, w') | (Inr x, w') \<Rightarrow> f x w')"

text \<open>
  \<^verbatim>\<open>try: body except C1 as e: h1 except C2 as e: h2\<close>: the first clause whose class
  the exception belongs to handles it; with no such clause it propagates. An
  exception raised inside a handler propagates too.
\<close>

definition try_except :: "'a io \<Rightarrow> ((exn \<Rightarrow> bool) \<times> (exn \<Rightarrow> 'a io)) list \<Rightarrow> 'a io" where
  "try_except body clauses =
     (\<lambda>w. case body w of
             (Inr x, w') \<Rightarrow> (Inr x, w')
           | (Inl e, w') \<Rightarrow>
               (case find (\<lambda>c. fst c e) clauses of
                  None \<Rightarrow> (Inl e, w')
                | Some c \<Rightarrow> snd c e w'))"

text \<open>
  \<^verbatim>\<open>print\<close> appends a line to the standard output, or raises
  \<^verbatim>\<open>UnicodeEncodeError\<close> and writes nothing when the line cannot be encoded.
  \<^verbatim>\<open>traceback.print_exc()\<close> writes the exception being handled to the standard
  error, which escapes what it cannot encode.
\<close>

definition print :: "line \<Rightarrow> unit io" where
  "print l =
     (\<lambda>w. if line_encodable l then (Inr (), w\<lparr>stdout := stdout w @ [l]\<rparr>)
          else (Inl (UnicodeEncodeError (codec_error w l)), w))"

definition traceback_print_exc :: "exn \<Rightarrow> unit io" where
  "traceback_print_exc e = (\<lambda>w. (Inr (), w\<lparr>stderr := stderr w @ [e]\<rparr>))"

text \<open>
  How the \<^verbatim>\<open>requests\<close> library follows a redirect (\<^verbatim>\<open>Session.resolve_redirects\<close> and
  \<^verbatim>\<open>rebuild_method\<close>): 303 and 302 turn every method but HEAD into GET, 301 turns
  POST into GET, 307 and 308 keep the method. Unless the status is 307 or 308 the
  body is dropped, with the headers \<^verbatim>\<open>Content-Length\<close>, \<^verbatim>\<open>Content-Type\<close> and
  \<^verbatim>\<open>Transfer-Encoding\<close>; every other header the script gave goes to the new target.
\<close>

fun follow_up :: "http_request \<Rightarrow> redirect \<Rightarrow> http_request" where
  "follow_up p (Redirect code location) =
     (let m = (if code = 303 \<and> meth p \<noteq> ''HEAD'' then ''GET''
               else if code = 302 \<and> meth p \<noteq> ''HEAD'' then ''GET''
               else if code = 301 \<and> meth p = ''POST'' then ''GET''
               else meth p)
      in if code = 307 \<or> code = 308
         then \<lparr>meth = m, target = location, header_fields = header_fields p, http_body = http_body p\<rparr>
         else \<lparr>meth = m, target = location,
               header_fields = filter (\<lambda>h. fst h \<notin> {''Content-Length'', ''Content-Type'',
                                                 ''Transfer-Encoding''}) (header_fields p),
               http_body = None\<rparr>)"

fun follow_ups :: "http_request \<Rightarrow> redirect list \<Rightarrow> http_request list" where
  "follow_ups p [] = []"
| "follow_ups p (r # rs) = follow_up p r # follow_ups (follow_up p r) rs"

text \<open>
  \<^verbatim>\<open>requests.post(url, headers=..., json=..., allow_redirects=...)\<close>: the call is
  recorded in \<open>sent\<close>, the POST goes out and, when redirects are allowed, so does one
  request for each redirect the library follows; the network decides the outcome.
  When the caller gives no \<^verbatim>\<open>allow_redirects\<close>, the library's default for POST is
  \<^verbatim>\<open>True\<close>.
\<close>

definition requests_post ::
  "net \<Rightarrow> string \<Rightarrow> (string \<times> string) list \<Rightarrow> (string \<times> pyval) list \<Rightarrow> bool option \<Rightarrow> response io" where
  "requests_post net u hs payload redirects =
     (\<lambda>w. let req = \<lparr>http_method = ''POST'', url = u, headers = hs, json = payload,
                       allow_redirects = (case redirects of None \<Rightarrow> True | Some b \<Rightarrow> b)\<rparr>;
               first = \<lparr>meth = http_method req, target = url req, header_fields = headers req,
                         http_body = Some (json req)\<rparr>;
               hops = (if allow_redirects req then followed w (sent w) req else [])
           in (net (sent w) req,
               w\<lparr>sent := sent w @ [req], wire := wire w @ first # follow_ups first hops\<rparr>))"

definition response_json :: "decoder \<Rightarrow> response \<Rightarrow> pyval io" where
  "response_json loads r =
     (case loads (text_str r) of
        Inl m \<Rightarrow> raise_io (JSONDecodeError m)
      | Inr v \<Rightarrow> return_io v)"

subsection \<open>Operations on decoded values\<close>

fun type_name :: "pyval \<Rightarrow> string" where
  "type_name PNone = ''NoneType''"
| "type_name (PBool _) = ''bool''"
| "type_name (PInt _) = ''int''"
| "type_name (PFloat _ _) = ''float''"
| "type_name (PStr _) = ''str''"
| "type_name (PList _) = ''list''"
| "type_name (PDict _) = ''dict''"

definition quoted :: "string \<Rightarrow> string" where
  "quoted s = CHR 0x27 # s @ [CHR 0x27]"

text \<open>\<^verbatim>\<open>d.get(k, default)\<close>: only a dict has the method.\<close>

definition py_get :: "pyval \<Rightarrow> string \<Rightarrow> pyval \<Rightarrow> pyval io" where
  "py_get d k dflt =
     (case d of
        PDict kvs \<Rightarrow> return_io (case map_of kvs k of Some v \<Rightarrow> v | None \<Rightarrow> dflt)
      | _ \<Rightarrow> raise_io (AttributeError
               (quoted (type_name d) @ '' object has no attribute '' @ quoted ''get'')))"

text \<open>
  \<^verbatim>\<open>k in d\<close> for a str \<open>k\<close>: a key of a dict, an element of a list, a substring of a
  str; any other right operand raises \<^verbatim>\<open>TypeError\<close>.
\<close>

definition is_substring :: "'a list \<Rightarrow> 'a list \<Rightarrow> bool" where
  "is_substring k s = list_ex (\<lambda>i. take (length k) (drop i s) = k) [0..<Suc (length s)]"

definition py_in :: "string \<Rightarrow> pyval \<Rightarrow> bool io" where
  "py_in k d =
     (case d of
        PDict kvs \<Rightarrow> return_io (map_of kvs k \<noteq> None)
      | PList xs \<Rightarrow> return_io (PStr (plain k) \<in> set xs)
      | PStr s \<Rightarrow> return_io (is_substring (plain k) s)
      | _ \<Rightarrow> raise_io (TypeError
               (''argument of type '' @ quoted (type_name d) @ '' is not iterable'')))"

text \<open>
  \<^verbatim>\<open>d[k]\<close> for a str \<open>k\<close>: the value of a dict (\<^verbatim>\<open>KeyError\<close> when missing, whose text
  is the quoted key); every other operand raises \<^verbatim>\<open>TypeError\<close>.
\<close>

definition py_getitem :: "pyval \<Rightarrow> string \<Rightarrow> pyval io" where
  "py_getitem d k =
     (case d of
        PDict kvs \<Rightarrow> (case map_of kvs k of Some v \<Rightarrow> return_io v
                                         | None \<Rightarrow> raise_io (KeyError (quoted k)))
      | PList _ \<Rightarrow> raise_io (TypeError ''list indices must be integers or slices, not str'')
      | PStr _ \<Rightarrow> raise_io (TypeError (''string indices must be integers, not '' @ quoted ''str''))
      | _ \<Rightarrow> raise_io (TypeError (quoted (type_name d) @ '' object is not subscriptable'')))"

text \<open>Truthiness of a str: \<^verbatim>\<open>if response.text\<close> holds for a non-empty text.\<close>

definition truthy_str :: "string \<Rightarrow> bool" where
  "truthy_str s = (s \<noteq> [])"

section \<open>quick-capture-client.py\<close>

definition NOTION_LITE_URL :: string where
  "NOTION_LITE_URL = ''http://localhost:3002''"

definition API_KEY :: string where
  "API_KEY = ''quick-capture-dev-key''"

definition USER_ID_quick :: string where
  "USER_ID_quick = ''YOUR_USER_ID''"

text \<open>
  \<^verbatim>\<open>def send_to_notion_lite(content: str, page_title: str = "Inbox") -> bool\<close>. The
  second argument is \<open>None\<close> when the caller leaves it out.
\<close>

definition send_to_notion_lite :: "net \<Rightarrow> decoder \<Rightarrow> pystr \<Rightarrow> pystr option \<Rightarrow> bool io" where
  "send_to_notion_lite net loads content page_title_arg =
     (let page_title = (case page_title_arg of None \<Rightarrow> plain ''Inbox'' | Some t \<Rightarrow> t) in
      try_except
        (bind_io
           (requests_post net (NOTION_LITE_URL @ ''/api/capture'')
              [(''x-api-key'', API_KEY), (''Content-Type'', ''application/json'')]
              [(''content'', PStr content), (''userId'', PStr (plain USER_ID_quick)),
               (''pageTitle'', PStr page_title)]
              None)
           (\<lambda>response.
              if status_code response = 200 then
                bind_io (response_json loads response) (\<lambda>result.
                bind_io (print (Line ''[U+2713] Captured to {}: {}...''
                                  [Fmt (PStr page_title), Fmt (PStr (take 50 content))])) (\<lambda>_.
                return_io True))
              else
                bind_io (print (Line ''[U+2717] Failed: {} - {}''
                                  [Fmt (PInt (status_code response)), Fmt (PStr (plain (text_str response)))])) (\<lambda>_.
                return_io False)))
        [(isinstance_Exception, \<lambda>e.
            bind_io (print (Line ''[U+2717] Error: {}'' [Fmt (PStr (plain (str e)))])) (\<lambda>_.
            return_io False))])"

section \<open>working-capture.py\<close>

definition USER_ID_working :: string where
  "USER_ID_working = ''0bnt7oYu8zfqw09XRd3otDT8Fbo2''"

text \<open>
  \<^verbatim>\<open>def capture_to_notion_lite(content)\<close> returns the pair
  \<^verbatim>\<open>(success: bool, response: dict)\<close>. The destination is always \<^verbatim>\<open>"Inbox"\<close>.
\<close>

definition capture_to_notion_lite :: "net \<Rightarrow> decoder \<Rightarrow> pystr \<Rightarrow> (bool \<times> pyval) io" where
  "capture_to_notion_lite net loads content =
     (let url = NOTION_LITE_URL @ ''/api/capture'';
          headers = [(''x-api-key'', API_KEY), (''Content-Type'', ''application/json'')];
          data = [(''content'', PStr content), (''userId'', PStr (plain USER_ID_working)),
                  (''pageTitle'', PStr (plain ''Inbox''))]
      in
      try_except
        (bind_io (requests_post net url headers data (Some True)) (\<lambda>response.
           if status_code response = 200 then
             bind_io (response_json loads response) (\<lambda>result.
             bind_io (print (Line ''[U+2705] Captured: {}...'' [Fmt (PStr (take 50 content))])) (\<lambda>_.
             bind_io (py_get result ''blockId'' PNone) (\<lambda>block_id.
             bind_io (print (Line ''   Block ID: {}'' [Fmt block_id])) (\<lambda>_.
             return_io (True, result)))))
           else
             bind_io (print (Line ''[U+274C] Failed with status {}''
                               [Fmt (PInt (status_code response))])) (\<lambda>_.
             bind_io (print (Line ''   Response: {}'' [Fmt (PStr (plain (text_str response)))])) (\<lambda>_.
             bind_io (if truthy_str (text_str response) then response_json loads response
                      else return_io (PDict [])) (\<lambda>body.
             return_io (False, body))))))
        [(isinstance_Exception, \<lambda>e.
            bind_io (print (Line ''[U+274C] Error: {}'' [Fmt (PStr (plain (str e)))])) (\<lambda>_.
            return_io (False, PDict [(''error'', PStr (plain (str e)))])))])"

section \<open>test-capture.py\<close>

definition USER_ID_test :: string where
  "USER_ID_test = ''YOUR_USER_ID_HERE''"

text \<open>
  \<^verbatim>\<open>def test_capture(content, show_details=True)\<close>. The inner
  \<^verbatim>\<open>try: data = response.json() except: ... return False\<close> leaves the function from
  inside its handler: the inner block yields \<open>Inl b\<close> when the function returns \<open>b\<close>
  there and \<open>Inr data\<close> when it goes on.
\<close>

definition test_capture :: "net \<Rightarrow> decoder \<Rightarrow> pystr \<Rightarrow> bool option \<Rightarrow> bool io" where
  "test_capture net loads content show_details_arg =
     (let show_details = (case show_details_arg of None \<Rightarrow> True | Some b \<Rightarrow> b);
          url = NOTION_LITE_URL @ ''/api/capture'';
          headers = [(''x-api-key'', API_KEY), (''Content-Type'', ''application/json'')];
          payload = [(''content'', PStr content), (''userId'', PStr (plain USER_ID_test)),
                     (''pageTitle'', PStr (plain ''Inbox''))]
      in
      bind_io (print (Line (''\<newline>[U+1F4DD] Testing Capture: '' @ quoted ''{}'')
                        [Fmt (PStr content)])) (\<lambda>_.
      bind_io (if show_details then
                 bind_io (print (Line ''   URL: {}'' [Fmt (PStr (plain url))])) (\<lambda>_.
                 bind_io (print (if length API_KEY > 10
                                 then Line ''   API Key: {}...'' [Fmt (PStr (plain (take 10 API_KEY)))]
                                 else Line ''{}'' [Fmt (PStr (plain API_KEY))])) (\<lambda>_.
                 print (Line ''   User ID: {}'' [Fmt (PStr (plain USER_ID_test))])))
               else return_io ()) (\<lambda>_.
      try_except
        (bind_io (requests_post net url headers payload None) (\<lambda>response.
         bind_io (print (Line ''   Status Code: {}'' [Fmt (PInt (status_code response))])) (\<lambda>_.
         bind_io (try_except
                    (bind_io (response_json loads response) (\<lambda>data. return_io (Inr data)))
                    [(isinstance_BaseException, \<lambda>_.
                        bind_io (print (Line ''   Response Text: {}''
                                          [Fmt (PStr (plain (text_str response)))])) (\<lambda>_.
                        return_io (Inl False)))]) (\<lambda>parsed.
         case parsed of
           Inl b \<Rightarrow> return_io b
         | Inr data \<Rightarrow>
             if status_code response = 200 then
               bind_io (print (Line ''   [U+2705] Capture successful!'' [])) (\<lambda>_.
               bind_io (if show_details then
                          bind_io (py_get data ''blockId'' (PStr (plain ''N/A''))) (\<lambda>block_id.
                          bind_io (print (Line ''   Block ID: {}'' [Fmt block_id])) (\<lambda>_.
                          bind_io (py_get data ''pageId'' (PStr (plain ''N/A''))) (\<lambda>page_id.
                          bind_io (print (Line ''   Page ID: {}'' [Fmt page_id])) (\<lambda>_.
                          bind_io (py_in ''debug'' data) (\<lambda>has_debug.
                          if has_debug then
                            bind_io (py_getitem data ''debug'') (\<lambda>debug.
                            print (Line ''   Debug Info: {}'' [JsonDumps debug 6]))
                          else return_io ())))))
                        else return_io ()) (\<lambda>_.
               return_io True))
             else if status_code response = 401 then
               bind_io (print (Line ''   [U+274C] Authentication failed'' [])) (\<lambda>_.
               bind_io (py_get data ''error'' (PStr (plain ''Unknown''))) (\<lambda>err.
               bind_io (print (Line ''   Error: {}'' [Fmt err])) (\<lambda>_.
               bind_io (print (Line ''   Your API key: {}'' [Fmt (PStr (plain API_KEY))])) (\<lambda>_.
               bind_io (py_get data ''receivedKey'' (PStr (plain ''Not shown''))) (\<lambda>received_key.
               bind_io (print (Line ''   Received key: {}'' [Fmt received_key])) (\<lambda>_.
               bind_io (print (Line
                  ''\<newline>   Fix: Check your API key in Settings [U+2192] Quick Capture'' [])) (\<lambda>_.
               return_io False)))))))
             else if status_code response = 400 then
               bind_io (print (Line ''   [U+274C] Bad request'' [])) (\<lambda>_.
               bind_io (py_get data ''error'' (PStr (plain ''Unknown''))) (\<lambda>err.
               bind_io (print (Line ''   Error: {}'' [Fmt err])) (\<lambda>_.
               bind_io (py_in ''received'' data) (\<lambda>has_received.
               bind_io (if has_received then
                          bind_io (py_getitem data ''received'') (\<lambda>received.
                          print (Line ''   Received fields: {}'' [Fmt received]))
                        else return_io ()) (\<lambda>_.
               bind_io (print (Line ''\<newline>   Fix: Ensure USER_ID is correct'' [])) (\<lambda>_.
               return_io False))))))
             else
               bind_io (print (Line ''   [U+274C] Unexpected error'' [])) (\<lambda>_.
               bind_io (py_get data ''error'' (PStr (plain ''Unknown''))) (\<lambda>err.
               bind_io (print (Line ''   Error: {}'' [Fmt err])) (\<lambda>_.
               bind_io (py_in ''details'' data) (\<lambda>has_details.
               bind_io (if has_details then
                          bind_io (py_getitem data ''details'') (\<lambda>details.
                          print (Line ''   Details: {}'' [Fmt details]))
                        else return_io ()) (\<lambda>_.
               return_io False)))))))))
        [(isinstance_ConnectionError, \<lambda>_.
            bind_io (print (Line ''   [U+274C] Connection failed'' [])) (\<lambda>_.
            bind_io (print (Line ''   Cannot connect to {}'' [Fmt (PStr (plain NOTION_LITE_URL))])) (\<lambda>_.
            bind_io (print (Line ''   Is Notion Lite running?'' [])) (\<lambda>_.
            return_io False)))),
         (isinstance_Exception, \<lambda>e.
            bind_io (print (Line ''   [U+274C] Exception: {}'' [Fmt (PStr (plain (str e)))])) (\<lambda>_.
            bind_io (traceback_print_exc e) (\<lambda>_.
            return_io False)))])))"

section \<open>Example environments\<close>

text \<open>
  Concrete networks, response bodies and a concrete decoder, used to run the three
  functions on explicit inputs. \<open>respond r\<close> answers every call with \<open>r\<close>;
  \<open>fail_with e\<close> raises \<open>e\<close> from every \<^verbatim>\<open>requests.post\<close>. \<open>example_loads\<close> decodes
  the bodies listed in \<open>example_bodies\<close> and rejects every other text. In the world
  \<open>w0\<close> nothing has happened yet and the service never redirects; in \<open>w_redirect\<close> it
  answers each POST once with status 307 and the same URL. \<open>lone_surrogate\<close> is the
  \<^verbatim>\<open>str\<close> that byte 0x80 on the command line becomes.
\<close>

definition respond :: "response \<Rightarrow> net" where
  "respond r = (\<lambda>h q. Inr r)"

definition fail_with :: "exn \<Rightarrow> net" where
  "fail_with e = (\<lambda>h q. Inl e)"

definition dquoted :: "string \<Rightarrow> string" where
  "dquoted s = CHR 0x22 # s @ [CHR 0x22]"

definition body_b1_p1 :: string where
  "body_b1_p1 = ''{'' @ dquoted ''blockId'' @ '': '' @ dquoted ''b1'' @ '', ''
                  @ dquoted ''pageId'' @ '': '' @ dquoted ''p1'' @ ''}''"

definition body_b2_p2 :: string where
  "body_b2_p2 = ''{'' @ dquoted ''blockId'' @ '': '' @ dquoted ''b2'' @ '', ''
                  @ dquoted ''pageId'' @ '': '' @ dquoted ''p2'' @ ''}''"

definition body_invalid_key :: string where
  "body_invalid_key = ''{'' @ dquoted ''error'' @ '':'' @ dquoted ''invalid key'' @ ''}''"

definition body_refused :: string where
  "body_refused = ''{'' @ dquoted ''error'' @ '':'' @ dquoted ''Connection refused'' @ ''}''"

definition body_html :: string where
  "body_html = ''<html>Bad Gateway</html>''"

definition example_bodies :: "(string \<times> pyval) list" where
  "example_bodies =
     [(body_b1_p1, PDict [(''blockId'', PStr (plain ''b1'')), (''pageId'', PStr (plain ''p1''))]),
      (body_b2_p2, PDict [(''blockId'', PStr (plain ''b2'')), (''pageId'', PStr (plain ''p2''))]),
      (body_invalid_key, PDict [(''error'', PStr (plain ''invalid key''))]),
      (body_refused, PDict [(''error'', PStr (plain ''Connection refused''))]),
      (''{}'', PDict [])]"

definition example_loads :: decoder where
  "example_loads s =
     (case map_of example_bodies s of
        Some v \<Rightarrow> Inr v
      | None \<Rightarrow> Inl ''Expecting value: line 1 column 1 (char 0)'')"

definition w0 :: world where
  "w0 = \<lparr>sent = [], wire = [], stdout = [], stderr = [],
          followed = (\<lambda>h q. []),
          codec_error = (\<lambda>l. ''surrogates not allowed'')\<rparr>"


definition lone_surrogate :: pystr where
  "lone_surrogate = [0xDC80]"

section \<open>Properties of computations\<close>

text \<open>
  Three properties that compose along \<open>bind_io\<close> and \<open>try_except\<close>: a computation
  sends nothing, it makes exactly the call \<open>q\<close> of \<^verbatim>\<open>requests.post\<close>, and every
  exception it raises belongs to the class \<open>C\<close>.
\<close>

definition preserves_sent :: "'a io \<Rightarrow> bool" where
  "preserves_sent m =
     (\<forall>w. sent (snd (m w)) = sent w \<and> wire (snd (m w)) = wire w \<and>
          followed (snd (m w)) = followed w)"

definition appends_request :: "request \<Rightarrow> 'a io \<Rightarrow> bool" where
  "appends_request q m =
     (\<forall>w. sent (snd (m w)) = sent w @ [q] \<and>
          wire (snd (m w)) =
            wire w @ \<lparr>meth = http_method q, target = url q, header_fields = headers q,
                       http_body = Some (json q)\<rparr>
                     # follow_ups \<lparr>meth = http_method q, target = url q,
                                   header_fields = headers q, http_body = Some (json q)\<rparr>
                         (if allow_redirects q then followed w (sent w) q else []))"

definition raises_only :: "(exn \<Rightarrow> bool) \<Rightarrow> 'a io \<Rightarrow> bool" where
  "raises_only C m = (\<forall>w e. fst (m w) = Inl e \<longrightarrow> C e)"

definition returns_only :: "('a \<Rightarrow> bool) \<Rightarrow> 'a io \<Rightarrow> bool" where
  "returns_only P m = (\<forall>w x. fst (m w) = Inr x \<longrightarrow> P x)"

lemmas io_defs = try_except_def bind_io_def requests_post_def print_def return_io_def raise_io_def
  response_json_def traceback_print_exc_def

lemmas example_defs = respond_def fail_with_def dquoted_def body_b1_p1_def body_b2_p2_def
  body_invalid_key_def body_refused_def body_html_def example_bodies_def example_loads_def

subsection \<open>Texts that can be printed\<close>

lemma encodable_plain [simp]: "encodable (plain s)"
proof -
  have "\<not> is_surrogate (of_char c)" for c :: char
  proof -
    have "(of_char c :: nat) mod 256 < 256"
      by (rule mod_less_divisor) simp
    then have "(of_char c :: nat) < 256"
      by simp
    then show ?thesis
      unfolding is_surrogate_def by linarith
  qed
  then show ?thesis
    by (simp add: encodable_def plain_def list_all_iff)
qed

lemma encodable_take: "encodable s \<Longrightarrow> encodable (take n s)"
  by (auto simp: encodable_def list_all_iff dest: in_set_takeD)

lemma lone_surrogate_not_encodable: "\<not> encodable lone_surrogate"
  by (simp add: encodable_def lone_surrogate_def is_surrogate_def)

subsection \<open>Sending nothing\<close>

lemma preserves_return: "preserves_sent (return_io x)"
  by (simp add: preserves_sent_def return_io_def)

lemma preserves_raise: "preserves_sent (raise_io e)"
  by (simp add: preserves_sent_def raise_io_def)

lemma preserves_print: "preserves_sent (print l)"
  by (simp add: preserves_sent_def print_def)

lemma preserves_traceback: "preserves_sent (traceback_print_exc e)"
  by (simp add: preserves_sent_def traceback_print_exc_def)

lemma preserves_sentD:
  assumes "preserves_sent m" and "m w = (r, w')"
  shows "sent w' = sent w" and "wire w' = wire w" and "followed w' = followed w"
  using assms by (auto simp: preserves_sent_def dest: spec [of _ w])

lemma preserves_bind:
  assumes "preserves_sent m" and "\<And>x. preserves_sent (f x)"
  shows "preserves_sent (bind_io m f)"
  unfolding preserves_sent_def
proof
  fix w
  obtain r w' where mw: "m w = (r, w')"
    by (cases "m w")
  note same = preserves_sentD [OF assms(1) mw]
  show "sent (snd (bind_io m f w)) = sent w \<and> wire (snd (bind_io m f w)) = wire w \<and>
        followed (snd (bind_io m f w)) = followed w"
  proof (cases r)
    case (Inl e)
    with mw same show ?thesis by (simp add: bind_io_def)
  next
    case (Inr x)
    obtain r' w'' where fx: "f x w' = (r', w'')"
      by (cases "f x w'")
    from preserves_sentD [OF assms(2) fx] mw Inr fx same show ?thesis
      by (simp add: bind_io_def)
  qed
qed

lemma preserves_if:
  "(c \<Longrightarrow> preserves_sent a) \<Longrightarrow> (\<not> c \<Longrightarrow> preserves_sent b) \<Longrightarrow> preserves_sent (if c then a else b)"
  by simp

lemma preserves_case_sum:
  "(\<And>a. preserves_sent (f a)) \<Longrightarrow> (\<And>b. preserves_sent (g b)) \<Longrightarrow>
   preserves_sent (case s of Inl a \<Rightarrow> f a | Inr b \<Rightarrow> g b)"
  by (cases s) simp_all

lemma preserves_response_json: "preserves_sent (response_json loads r)"
  by (simp add: response_json_def preserves_raise preserves_return split: sum.splits)

lemma preserves_py_get: "preserves_sent (py_get d k v)"
  by (cases d) (simp_all add: py_get_def preserves_raise preserves_return)

lemma preserves_py_in: "preserves_sent (py_in k d)"
  by (cases d) (simp_all add: py_in_def preserves_raise preserves_return)

lemma preserves_py_getitem: "preserves_sent (py_getitem d k)"
  by (cases d) (simp_all add: py_getitem_def preserves_raise preserves_return split: option.splits)

lemma preserves_try_except:
  assumes "preserves_sent body" and "\<And>c e. c \<in> set clauses \<Longrightarrow> preserves_sent (snd c e)"
  shows "preserves_sent (try_except body clauses)"
  unfolding preserves_sent_def
proof
  fix w
  obtain r w' where bw: "body w = (r, w')"
    by (cases "body w")
  note same = preserves_sentD [OF assms(1) bw]
  show "sent (snd (try_except body clauses w)) = sent w \<and>
        wire (snd (try_except body clauses w)) = wire w \<and>
        followed (snd (try_except body clauses w)) = followed w"
  proof (cases r)
    case (Inr x)
    with bw same show ?thesis by (simp add: try_except_def)
  next
    case (Inl e)
    show ?thesis
    proof (cases "find (\<lambda>c. fst c e) clauses")
      case None
      with bw Inl same show ?thesis by (simp add: try_except_def)
    next
      case (Some c)
      then have "c \<in> set clauses"
        by (auto simp: find_Some_iff)
      then have handler: "preserves_sent (snd c e)"
        by (rule assms(2))
      obtain r' w'' where hw: "snd c e w' = (r', w'')"
        by (cases "snd c e w'")
      from preserves_sentD [OF handler hw] bw Inl Some hw same show ?thesis
        by (simp add: try_except_def)
    qed
  qed
qed

lemmas preserves_intros =
  preserves_return preserves_raise preserves_print preserves_traceback preserves_bind
  preserves_if preserves_case_sum preserves_response_json preserves_py_get preserves_py_in
  preserves_py_getitem

subsection \<open>Raising only exceptions of a class\<close>

lemma raises_only_return: "raises_only C (return_io x)"
  by (simp add: raises_only_def return_io_def)

lemma raises_only_raise: "C e \<Longrightarrow> raises_only C (raise_io e)"
  by (simp add: raises_only_def raise_io_def)

lemma raises_only_print: "raises_only isinstance_Exception (print l)"
  by (auto simp: raises_only_def print_def split: if_splits)

lemma never_raises_print: "line_encodable l \<Longrightarrow> raises_only (\<lambda>e. False) (print l)"
  by (simp add: raises_only_def print_def)

lemma raises_only_traceback: "raises_only C (traceback_print_exc e)"
  by (simp add: raises_only_def traceback_print_exc_def)

lemma raises_only_bind:
  assumes "raises_only C m" and "\<And>x. raises_only C (f x)"
  shows "raises_only C (bind_io m f)"
  unfolding raises_only_def
proof (intro allI impI)
  fix w e
  assume raised: "fst (bind_io m f w) = Inl e"
  show "C e"
  proof (cases "m w")
    case (Pair r w')
    show ?thesis
    proof (cases r)
      case (Inl e')
      with Pair raised have "e' = e" by (simp add: bind_io_def)
      with Pair Inl assms(1) show ?thesis
        by (metis raises_only_def fst_conv)
    next
      case (Inr x)
      with Pair raised have "fst (f x w') = Inl e" by (simp add: bind_io_def)
      with assms(2) show ?thesis
        by (metis raises_only_def)
    qed
  qed
qed

lemma raises_only_if:
  "(c \<Longrightarrow> raises_only C a) \<Longrightarrow> (\<not> c \<Longrightarrow> raises_only C b) \<Longrightarrow> raises_only C (if c then a else b)"
  by simp

lemma raises_only_case_sum:
  "(\<And>a. raises_only C (f a)) \<Longrightarrow> (\<And>b. raises_only C (g b)) \<Longrightarrow>
   raises_only C (case s of Inl a \<Rightarrow> f a | Inr b \<Rightarrow> g b)"
  by (cases s) simp_all

lemma raises_only_response_json: "raises_only isinstance_Exception (response_json loads r)"
  by (simp add: response_json_def raises_only_raise raises_only_return split: sum.splits)

lemma raises_only_py_get: "raises_only isinstance_Exception (py_get d k v)"
  by (cases d) (simp_all add: py_get_def raises_only_raise raises_only_return)

lemma raises_only_py_in: "raises_only isinstance_Exception (py_in k d)"
  by (cases d) (simp_all add: py_in_def raises_only_raise raises_only_return)

lemma raises_only_py_getitem: "raises_only isinstance_Exception (py_getitem d k)"
  by (cases d) (simp_all add: py_getitem_def raises_only_raise raises_only_return split: option.splits)

lemma raises_only_requests_post:
  "(\<And>h q e. net h q = Inl e \<Longrightarrow> C e) \<Longrightarrow> raises_only C (requests_post net u hs payload redirects)"
  by (simp add: raises_only_def requests_post_def Let_def)

text \<open>
  A \<^verbatim>\<open>try\<close> whose body raises only exceptions of class \<open>B\<close>: what leaves it is what
  a handler raises, or an exception of \<open>B\<close> that no clause matches.
\<close>

lemma raises_only_try_except:
  assumes "raises_only B body"
    and "\<And>c e. c \<in> set clauses \<Longrightarrow> raises_only C (snd c e)"
    and "\<And>e. B e \<Longrightarrow> \<forall>c \<in> set clauses. \<not> fst c e \<Longrightarrow> C e"
  shows "raises_only C (try_except body clauses)"
  unfolding raises_only_def
proof (intro allI impI)
  fix w e
  assume raised: "fst (try_except body clauses w) = Inl e"
  show "C e"
  proof (cases "body w")
    case (Pair r w')
    show ?thesis
    proof (cases r)
      case (Inr x)
      with Pair raised show ?thesis by (simp add: try_except_def)
    next
      case (Inl e')
      with Pair assms(1) have B: "B e'"
        by (metis raises_only_def fst_conv)
      show ?thesis
      proof (cases "find (\<lambda>c. fst c e') clauses")
        case None
        with Pair Inl raised have "e' = e" by (simp add: try_except_def)
        moreover from None have "\<forall>c \<in> set clauses. \<not> fst c e'"
          by (auto simp: find_None_iff)
        ultimately show ?thesis using B assms(3) by blast
      next
        case (Some c)
        then have "c \<in> set clauses"
          by (auto simp: find_Some_iff)
        moreover from Pair Inl Some raised have "fst (snd c e' w') = Inl e"
          by (simp add: try_except_def)
        ultimately show ?thesis using assms(2)
          by (metis raises_only_def)
      qed
    qed
  qed
qed

lemma raises_only_returns:
  "raises_only (\<lambda>e. False) m \<Longrightarrow> \<exists>x. fst (m w) = Inr x"
  by (cases "fst (m w)") (auto simp: raises_only_def)

lemmas raises_only_intros =
  raises_only_return raises_only_print raises_only_traceback raises_only_bind
  raises_only_if raises_only_case_sum raises_only_response_json raises_only_py_get
  raises_only_py_in raises_only_py_getitem

lemmas never_raises_intros =
  raises_only_return never_raises_print raises_only_traceback raises_only_bind raises_only_if

subsection \<open>Making exactly one call\<close>

lemma appends_requests_post:
  "appends_request \<lparr>http_method = ''POST'', url = u, headers = hs, json = payload,
                     allow_redirects = (case redirects of None \<Rightarrow> True | Some b \<Rightarrow> b)\<rparr>
     (requests_post net u hs payload redirects)"
  by (simp add: appends_request_def requests_post_def Let_def)

lemma appends_requestD:
  assumes "appends_request q m" and "m w = (r, w')"
  shows "sent w' = sent w @ [q]"
    and "wire w' =
           wire w @ \<lparr>meth = http_method q, target = url q, header_fields = headers q,
                      http_body = Some (json q)\<rparr>
                    # follow_ups \<lparr>meth = http_method q, target = url q,
                                  header_fields = headers q, http_body = Some (json q)\<rparr>
                        (if allow_redirects q then followed w (sent w) q else [])"
  using assms by (auto simp: appends_request_def dest: spec [of _ w])

lemma appends_bind_first:
  assumes "appends_request q m" and "\<And>x. preserves_sent (f x)"
  shows "appends_request q (bind_io m f)"
  unfolding appends_request_def
proof (intro allI)
  fix w
  obtain r w' where mw: "m w = (r, w')"
    by (cases "m w")
  note grown = appends_requestD [OF assms(1) mw]
  let ?goal = "\<lambda>w''. sent w'' = sent w @ [q] \<and>
     wire w'' = wire w @ \<lparr>meth = http_method q, target = url q, header_fields = headers q,
                           http_body = Some (json q)\<rparr>
                         # follow_ups \<lparr>meth = http_method q, target = url q,
                                       header_fields = headers q, http_body = Some (json q)\<rparr>
                             (if allow_redirects q then followed w (sent w) q else [])"
  show "?goal (snd (bind_io m f w))"
  proof (cases r)
    case (Inl e)
    with mw grown show ?thesis by (simp add: bind_io_def)
  next
    case (Inr x)
    obtain r' w'' where fx: "f x w' = (r', w'')"
      by (cases "f x w'")
    from preserves_sentD [OF assms(2) fx] mw Inr fx grown show ?thesis
      by (simp add: bind_io_def)
  qed
qed

lemma appends_bind_second:
  assumes "preserves_sent m" and "raises_only (\<lambda>e. False) m" and "\<And>x. appends_request q (f x)"
  shows "appends_request q (bind_io m f)"
  unfolding appends_request_def
proof (intro allI)
  fix w
  obtain r w' where mw: "m w = (r, w')"
    by (cases "m w")
  note same = preserves_sentD [OF assms(1) mw]
  let ?goal = "\<lambda>w''. sent w'' = sent w @ [q] \<and>
     wire w'' = wire w @ \<lparr>meth = http_method q, target = url q, header_fields = headers q,
                           http_body = Some (json q)\<rparr>
                         # follow_ups \<lparr>meth = http_method q, target = url q,
                                       header_fields = headers q, http_body = Some (json q)\<rparr>
                             (if allow_redirects q then followed w (sent w) q else [])"
  show "?goal (snd (bind_io m f w))"
  proof (cases r)
    case (Inl e)
    with mw assms(2) show ?thesis
      by (metis raises_only_def fst_conv)
  next
    case (Inr x)
    obtain r' w'' where fx: "f x w' = (r', w'')"
      by (cases "f x w'")
    from appends_requestD [OF assms(3) fx] mw Inr fx same show ?thesis
      by (simp add: bind_io_def)
  qed
qed

lemma appends_try_except:
  assumes "appends_request q body" and "\<And>c e. c \<in> set clauses \<Longrightarrow> preserves_sent (snd c e)"
  shows "appends_request q (try_except body clauses)"
  unfolding appends_request_def
proof (intro allI)
  fix w
  obtain r w' where bw: "body w = (r, w')"
    by (cases "body w")
  note grown = appends_requestD [OF assms(1) bw]
  let ?goal = "\<lambda>w''. sent w'' = sent w @ [q] \<and>
     wire w'' = wire w @ \<lparr>meth = http_method q, target = url q, header_fields = headers q,
                           http_body = Some (json q)\<rparr>
                         # follow_ups \<lparr>meth = http_method q, target = url q,
                                       header_fields = headers q, http_body = Some (json q)\<rparr>
                             (if allow_redirects q then followed w (sent w) q else [])"
  show "?goal (snd (try_except body clauses w))"
  proof (cases r)
    case (Inr x)
    with bw grown show ?thesis by (simp add: try_except_def)
  next
    case (Inl e)
    show ?thesis
    proof (cases "find (\<lambda>c. fst c e) clauses")
      case None
      with bw Inl grown show ?thesis by (simp add: try_except_def)
    next
      case (Some c)
      then have "c \<in> set clauses"
        by (auto simp: find_Some_iff)
      then have handler: "preserves_sent (snd c e)"
        by (rule assms(2))
      obtain r' w'' where hw: "snd c e w' = (r', w'')"
        by (cases "snd c e w'")
      from preserves_sentD [OF handler hw] bw Inl Some hw grown show ?thesis
        by (simp add: try_except_def)
    qed
  qed
qed

subsection \<open>Returning only certain values\<close>

lemma returns_only_return: "P x \<Longrightarrow> returns_only P (return_io x)"
  by (simp add: returns_only_def return_io_def)

lemma returns_only_raise: "returns_only P (raise_io e)"
  by (simp add: returns_only_def raise_io_def)

lemma returns_only_bind_post:
  assumes "returns_only Q m" and "\<And>x. Q x \<Longrightarrow> returns_only P (f x)"
  shows "returns_only P (bind_io m f)"
  unfolding returns_only_def
proof (intro allI impI)
  fix w y
  assume returned: "fst (bind_io m f w) = Inr y"
  obtain r w' where mw: "m w = (r, w')"
    by (cases "m w")
  show "P y"
  proof (cases r)
    case (Inl e)
    with mw returned show ?thesis by (simp add: bind_io_def)
  next
    case (Inr x)
    with mw assms(1) have "Q x"
      by (metis returns_only_def fst_conv)
    then have "returns_only P (f x)"
      by (rule assms(2))
    moreover from mw Inr returned have "fst (f x w') = Inr y"
      by (simp add: bind_io_def)
    ultimately show ?thesis
      by (metis returns_only_def)
  qed
qed

lemma returns_only_any: "returns_only (\<lambda>x. True) m"
  by (simp add: returns_only_def)

lemma returns_only_bind:
  "(\<And>x. returns_only P (f x)) \<Longrightarrow> returns_only P (bind_io m f)"
  by (rule returns_only_bind_post [OF returns_only_any])

lemma returns_only_if:
  "(c \<Longrightarrow> returns_only P a) \<Longrightarrow> (\<not> c \<Longrightarrow> returns_only P b) \<Longrightarrow> returns_only P (if c then a else b)"
  by simp

lemma returns_only_try_except:
  assumes "returns_only P body" and "\<And>c e. c \<in> set clauses \<Longrightarrow> returns_only P (snd c e)"
  shows "returns_only P (try_except body clauses)"
  unfolding returns_only_def
proof (intro allI impI)
  fix w y
  assume returned: "fst (try_except body clauses w) = Inr y"
  obtain r w' where bw: "body w = (r, w')"
    by (cases "body w")
  show "P y"
  proof (cases r)
    case (Inr x)
    with bw returned have "fst (body w) = Inr y"
      by (simp add: try_except_def)
    with assms(1) show ?thesis
      by (metis returns_only_def)
  next
    case (Inl e)
    show ?thesis
    proof (cases "find (\<lambda>c. fst c e) clauses")
      case None
      with bw Inl returned show ?thesis by (simp add: try_except_def)
    next
      case (Some c)
      then have "c \<in> set clauses"
        by (auto simp: find_Some_iff)
      then have "returns_only P (snd c e)"
        by (rule assms(2))
      moreover from bw Inl Some returned have "fst (snd c e w') = Inr y"
        by (simp add: try_except_def)
      ultimately show ?thesis
        by (metis returns_only_def)
    qed
  qed
qed

lemma result_is_False:
  assumes "raises_only (\<lambda>e. False) m" and "returns_only (\<lambda>b. \<not> b) m"
  shows "fst (m w) = Inr False"
proof (cases "fst (m w)")
  case (Inl e)
  with assms(1) show ?thesis by (auto simp: raises_only_def)
next
  case (Inr b)
  with assms(2) have "\<not> b" by (auto simp: returns_only_def)
  with Inr show ?thesis by simp
qed

lemmas returns_only_intros =
  returns_only_return returns_only_raise returns_only_bind returns_only_if

section \<open>The call each function makes\<close>

lemma send_to_notion_lite_appends:
  "appends_request
     \<lparr>http_method = ''POST'', url = NOTION_LITE_URL @ ''/api/capture'',
      headers = [(''x-api-key'', API_KEY), (''Content-Type'', ''application/json'')],
      json = [(''content'', PStr content), (''userId'', PStr (plain USER_ID_quick)),
              (''pageTitle'', PStr (case pt of None \<Rightarrow> plain ''Inbox'' | Some t \<Rightarrow> t))],
      allow_redirects = True\<rparr>
     (send_to_notion_lite net loads content pt)"
  unfolding send_to_notion_lite_def Let_def
  apply (rule appends_try_except)
   apply (rule appends_bind_first)
    apply (rule appends_requests_post [where redirects = None, simplified])
   apply (intro preserves_intros)
  apply (auto intro!: preserves_intros)
  done

lemma capture_to_notion_lite_appends:
  "appends_request
     \<lparr>http_method = ''POST'', url = NOTION_LITE_URL @ ''/api/capture'',
      headers = [(''x-api-key'', API_KEY), (''Content-Type'', ''application/json'')],
      json = [(''content'', PStr content), (''userId'', PStr (plain USER_ID_working)),
              (''pageTitle'', PStr (plain ''Inbox''))],
      allow_redirects = True\<rparr>
     (capture_to_notion_lite net loads content)"
  unfolding capture_to_notion_lite_def Let_def
  apply (rule appends_try_except)
   apply (rule appends_bind_first)
    apply (rule appends_requests_post [where redirects = "Some True", simplified])
   apply (intro preserves_intros)
  apply (auto intro!: preserves_intros)
  done

text \<open>
  \<open>test_capture\<close> prints the content before its \<^verbatim>\<open>try\<close>: it comes to its call of
  \<^verbatim>\<open>requests.post\<close> when that line can be written, and otherwise it raises at once
  and leaves the world as it was.
\<close>

lemma test_capture_appends:
  assumes "encodable content"
  shows "appends_request
     \<lparr>http_method = ''POST'', url = NOTION_LITE_URL @ ''/api/capture'',
      headers = [(''x-api-key'', API_KEY), (''Content-Type'', ''application/json'')],
      json = [(''content'', PStr content), (''userId'', PStr (plain USER_ID_test)),
              (''pageTitle'', PStr (plain ''Inbox''))],
      allow_redirects = True\<rparr>
     (test_capture net loads content sd)"
  unfolding test_capture_def Let_def
  apply (rule appends_bind_second)
    apply (rule preserves_print)
   apply (rule never_raises_print)
   apply (simp add: assms)
  apply (rule appends_bind_second)
    apply (intro preserves_intros)
   apply (intro never_raises_intros)
     apply simp_all [3]
  apply (rule appends_try_except)
   apply (rule appends_bind_first)
    apply (rule appends_requests_post [where redirects = None, simplified])
   apply (intro preserves_intros preserves_try_except)
   apply (auto intro!: preserves_intros)
  done

lemma test_capture_unencodable:
  assumes "\<not> encodable content"
  shows "test_capture net loads content sd w =
           (Inl (UnicodeEncodeError
                   (codec_error w (Line (''\<newline>[U+1F4DD] Testing Capture: '' @ quoted ''{}'')
                                     [Fmt (PStr content)]))), w)"
  using assms by (simp add: test_capture_def Let_def bind_io_def print_def)

section \<open>Which exceptions leave a capture function\<close>

lemma send_never_raises:
  assumes "\<And>h q e. net h q = Inl e \<Longrightarrow> isinstance_Exception e"
  shows "raises_only (\<lambda>e. False) (send_to_notion_lite net loads content pt)"
  unfolding send_to_notion_lite_def Let_def
  apply (rule raises_only_try_except [where B = isinstance_Exception])
    apply (intro raises_only_intros raises_only_requests_post [OF assms])
   apply (auto intro!: never_raises_intros)
  done

lemma capture_never_raises:
  assumes "\<And>h q e. net h q = Inl e \<Longrightarrow> isinstance_Exception e"
  shows "raises_only (\<lambda>e. False) (capture_to_notion_lite net loads content)"
  unfolding capture_to_notion_lite_def Let_def
  apply (rule raises_only_try_except [where B = isinstance_Exception])
    apply (intro raises_only_intros raises_only_requests_post [OF assms])
   apply (auto intro!: never_raises_intros)
  done

lemma test_capture_never_raises:
  assumes "\<And>h q e. net h q = Inl e \<Longrightarrow> isinstance_Exception e"
    and "encodable content"
  shows "raises_only (\<lambda>e. False) (test_capture net loads content sd)"
  unfolding test_capture_def Let_def
  apply (rule raises_only_bind)
   apply (rule never_raises_print)
   apply (simp add: assms(2))
  apply (rule raises_only_bind)
   apply (intro never_raises_intros)
     apply simp_all [3]
  apply (rule raises_only_try_except [where B = isinstance_Exception])
    apply (intro raises_only_intros raises_only_requests_post [OF assms(1)]
                 raises_only_try_except [where B = isinstance_Exception and C = isinstance_Exception])
    apply (auto intro!: raises_only_intros never_raises_print)
  done

section \<open>What each function returns\<close>

lemma send_to_notion_lite_response:
  assumes "\<forall>q. net (sent w) q = Inr r"
  shows "fst (send_to_notion_lite net loads content pt w) =
           Inr (status_code r = 200 \<and> (\<exists>v. loads (text_str r) = Inr v) \<and>
                (case pt of None \<Rightarrow> True | Some t \<Rightarrow> encodable t) \<and>
                encodable (take 50 content))"
  using assms
  by (cases "loads (text_str r)"; cases pt)
     (simp_all add: send_to_notion_lite_def Let_def io_defs)

lemma send_to_notion_lite_exception:
  assumes "\<forall>q. net (sent w) q = Inl e" and "isinstance_Exception e"
  shows "fst (send_to_notion_lite net loads content pt w) = Inr False"
  using assms by (simp add: send_to_notion_lite_def Let_def io_defs)

lemma send_to_notion_lite_interrupt:
  assumes "\<forall>q. net (sent w) q = Inl KeyboardInterrupt"
  shows "fst (send_to_notion_lite net loads content pt w) = Inl KeyboardInterrupt"
  using assms by (simp add: send_to_notion_lite_def Let_def io_defs)

lemma capture_to_notion_lite_200:
  assumes "\<forall>q. net (sent w) q = Inr r" and "status_code r = 200"
    and "loads (text_str r) = Inr (PDict d)"
    and "encodable (take 50 content)"
    and "\<forall>s. map_of d ''blockId'' = Some (PStr s) \<longrightarrow> encodable s"
  shows "fst (capture_to_notion_lite net loads content w) = Inr (True, PDict d)"
proof (cases "map_of d ''blockId''")
  case None
  with assms show ?thesis
    by (simp add: capture_to_notion_lite_def Let_def io_defs py_get_def)
next
  case (Some v)
  with assms show ?thesis
    by (cases v) (simp_all add: capture_to_notion_lite_def Let_def io_defs py_get_def)
qed

text \<open>
  When a print inside the \<^verbatim>\<open>try\<close> fails, the handler reports a failure although the
  service answered 200.
\<close>

lemma capture_to_notion_lite_200_unencodable:
  assumes "\<forall>q. net (sent w) q = Inr r" and "status_code r = 200"
    and "loads (text_str r) = Inr v"
    and "\<not> encodable (take 50 content)"
  shows "\<exists>m. fst (capture_to_notion_lite net loads content w)
               = Inr (False, PDict [(''error'', PStr (plain m))])"
  using assms by (auto simp add: capture_to_notion_lite_def Let_def io_defs)

lemma capture_to_notion_lite_200_not_dict:
  assumes "\<forall>q. net (sent w) q = Inr r" and "status_code r = 200"
    and "loads (text_str r) = Inr v" and "\<And>d. v \<noteq> PDict d"
    and "encodable (take 50 content)"
  shows "fst (capture_to_notion_lite net loads content w) =
           Inr (False, PDict [(''error'', PStr (plain (quoted (type_name v) @ '' object has no attribute '' @ quoted ''get'')))])"
  using assms by (cases v) (auto simp add: capture_to_notion_lite_def Let_def io_defs py_get_def)

lemma capture_to_notion_lite_not_200:
  assumes "\<forall>q. net (sent w) q = Inr r" and "status_code r \<noteq> 200"
  shows "fst (capture_to_notion_lite net loads content w) =
           Inr (False, if text_str r = [] then PDict []
                       else (case loads (text_str r) of
                               Inl m \<Rightarrow> PDict [(''error'', PStr (plain m))]
                             | Inr v \<Rightarrow> v))"
  using assms
  by (cases "loads (text_str r)")
     (simp_all add: capture_to_notion_lite_def Let_def io_defs truthy_str_def)

lemma capture_to_notion_lite_exception:
  assumes "\<forall>q. net (sent w) q = Inl e" and "isinstance_Exception e"
  shows "fst (capture_to_notion_lite net loads content w) =
           Inr (False, PDict [(''error'', PStr (plain (str e)))])"
  using assms by (simp add: capture_to_notion_lite_def Let_def io_defs)

lemma test_capture_exception:
  assumes "\<forall>q. net (sent w) q = Inl e" and "isinstance_Exception e" and "encodable content"
  shows "fst (test_capture net loads content sd w) = Inr False"
  using assms
  by (simp add: test_capture_def Let_def io_defs)

lemma test_capture_undecodable:
  assumes "\<forall>q. net (sent w) q = Inr r" and "loads (text_str r) = Inl m" and "encodable content"
  shows "fst (test_capture net loads content sd w) = Inr False"
  using assms
  by (simp add: test_capture_def Let_def io_defs isinstance_BaseException_def)


lemma test_capture_200:
  assumes "\<forall>q. net (sent w) q = Inr r" and "status_code r = 200"
    and "loads (text_str r) = Inr (PDict d)"
    and "encodable content"
    and "\<forall>s. map_of d ''blockId'' = Some (PStr s) \<longrightarrow> encodable s"
    and "\<forall>s. map_of d ''pageId'' = Some (PStr s) \<longrightarrow> encodable s"
  shows "fst (test_capture net loads content sd w) = Inr True"
proof -
  have block: "arg_encodable (Fmt (case map_of d ''blockId'' of Some v \<Rightarrow> v | None \<Rightarrow> PStr (plain ''N/A'')))"
  proof (cases "map_of d ''blockId''")
    case None
    then show ?thesis by simp
  next
    case (Some v)
    with assms(5) show ?thesis by (cases v) simp_all
  qed
  have page: "arg_encodable (Fmt (case map_of d ''pageId'' of Some v \<Rightarrow> v | None \<Rightarrow> PStr (plain ''N/A'')))"
  proof (cases "map_of d ''pageId''")
    case None
    then show ?thesis by simp
  next
    case (Some v)
    with assms(6) show ?thesis by (cases v) simp_all
  qed
  from assms(1-4) block page show ?thesis
    by (cases "map_of d ''debug''")
       (simp_all add: test_capture_def Let_def io_defs isinstance_BaseException_def
          py_get_def py_in_def py_getitem_def)
qed

text \<open>Running a computation up to its call of \<^verbatim>\<open>requests.post\<close>.\<close>

lemma fst_bind_quiet:
  assumes "preserves_sent m" and "raises_only (\<lambda>e. False) m"
    and "\<And>x w1. sent w1 = sent w \<Longrightarrow> fst (f x w1) = v"
  shows "fst (bind_io m f w) = v"
proof -
  obtain r w1 where mw: "m w = (r, w1)"
    by (cases "m w")
  from preserves_sentD(1) [OF assms(1) mw] have same: "sent w1 = sent w" .
  show ?thesis
  proof (cases r)
    case (Inl e)
    with mw assms(2) show ?thesis
      by (metis raises_only_def fst_conv)
  next
    case (Inr x)
    with mw assms(3) [OF same, of x] show ?thesis
      by (simp add: bind_io_def)
  qed
qed

lemma fst_try_post:
  assumes "\<forall>q. net (sent w) q = Inr r"
    and "\<And>w2. fst (try_except (K r) clauses w2) = v"
  shows "fst (try_except (bind_io (requests_post net u hs payload rd) K) clauses w) = v"
proof -
  from assms(1) have "try_except (bind_io (requests_post net u hs payload rd) K) clauses w
              = try_except (K r) clauses (snd (requests_post net u hs payload rd w))"
    by (simp add: try_except_def bind_io_def requests_post_def Let_def)
  with assms(2) show ?thesis by simp
qed

lemma test_capture_not_200:
  assumes "\<forall>q. net (sent w) q = Inr r" and "status_code r \<noteq> 200" and "encodable content"
  shows "fst (test_capture net loads content sd w) = Inr False"
  unfolding test_capture_def Let_def
  apply (rule fst_bind_quiet)
    apply (rule preserves_print)
   apply (rule never_raises_print)
   apply (simp add: assms(3))
  apply (rule fst_bind_quiet)
    apply (intro preserves_intros)
   apply (intro never_raises_intros)
     apply simp_all [3]
  apply (rule fst_try_post [where r = r])
   apply (simp add: assms(1))
  apply (rule result_is_False)
   apply (rule raises_only_try_except [where B = isinstance_Exception])
     apply (intro raises_only_intros
                  raises_only_try_except [where B = isinstance_Exception and C = isinstance_Exception])
     apply (auto intro!: raises_only_intros never_raises_print) [4]
  apply (rule returns_only_try_except)
   apply (rule returns_only_bind)
   apply (rule returns_only_bind_post [where Q = "\<lambda>p. p \<noteq> Inl True"])
    apply (rule returns_only_try_except)
     apply (auto intro!: returns_only_intros simp: assms(2) split: sum.splits)
  done

lemma test_capture_401_prints:
  assumes "\<forall>q. net (sent w) q = Inr r" and "status_code r = 401"
    and "loads (text_str r) = Inr (PDict [(''error'', PStr (plain ''invalid key''))])"
    and "encodable content"
  shows "Line ''   [U+274C] Authentication failed'' [] \<in> set (stdout (snd (test_capture net loads content sd w)))"
  using assms
  by (simp add: test_capture_def Let_def io_defs isinstance_BaseException_def py_get_def)

lemma transport_failure_is_Exception: "is_transport_failure e \<Longrightarrow> isinstance_Exception e"
  by (cases e) simp_all

lemma example_loads_b1_p1:
  "example_loads body_b1_p1
     = Inr (PDict [(''blockId'', PStr (plain ''b1'')), (''pageId'', PStr (plain ''p1''))])"
  by (simp add: example_defs)

lemma example_loads_b2_p2:
  "example_loads body_b2_p2
     = Inr (PDict [(''blockId'', PStr (plain ''b2'')), (''pageId'', PStr (plain ''p2''))])"
  by (simp add: example_defs)

lemma example_loads_invalid_key:
  "example_loads body_invalid_key = Inr (PDict [(''error'', PStr (plain ''invalid key''))])"
  by (simp add: example_defs)

lemma example_loads_refused:
  "example_loads body_refused = Inr (PDict [(''error'', PStr (plain ''Connection refused''))])"
  by (simp add: example_defs)

lemma example_loads_html:
  "example_loads body_html = Inl ''Expecting value: line 1 column 1 (char 0)''"
  by (simp add: example_defs)

lemma respond_answers: "\<forall>q. respond r (sent w) q = Inr r"
  by (simp add: respond_def)

lemma fail_with_raises: "\<forall>q. fail_with e (sent w) q = Inl e"
  by (simp add: fail_with_def)

lemma send_to_notion_lite_respond:
  "fst (send_to_notion_lite (respond r) loads content pt w) =
     Inr (status_code r = 200 \<and> (\<exists>v. loads (text_str r) = Inr v) \<and>
          (case pt of None \<Rightarrow> True | Some t \<Rightarrow> encodable t) \<and> encodable (take 50 content))"
  by (rule send_to_notion_lite_response) (rule respond_answers)

lemma send_to_notion_lite_fail_with:
  "isinstance_Exception e \<Longrightarrow>
   fst (send_to_notion_lite (fail_with e) loads content pt w) = Inr False"
  by (rule send_to_notion_lite_exception) (rule fail_with_raises)

lemma capture_to_notion_lite_respond_not_200:
  "status_code r \<noteq> 200 \<Longrightarrow>
   fst (capture_to_notion_lite (respond r) loads content w) =
     Inr (False, if text_str r = [] then PDict []
                 else (case loads (text_str r) of
                         Inl m \<Rightarrow> PDict [(''error'', PStr (plain m))]
                       | Inr v \<Rightarrow> v))"
  by (rule capture_to_notion_lite_not_200) (rule respond_answers)

lemma capture_to_notion_lite_fail_with:
  "isinstance_Exception e \<Longrightarrow>
   fst (capture_to_notion_lite (fail_with e) loads content w) =
     Inr (False, PDict [(''error'', PStr (plain (str e)))])"
  by (rule capture_to_notion_lite_exception) (rule fail_with_raises)

lemma test_capture_respond_not_200:
  "status_code r \<noteq> 200 \<Longrightarrow> encodable content \<Longrightarrow>
   fst (test_capture (respond r) loads content sd w) = Inr False"
  by (rule test_capture_not_200) (rule respond_answers)

lemma test_capture_fail_with:
  "isinstance_Exception e \<Longrightarrow> encodable content \<Longrightarrow>
   fst (test_capture (fail_with e) loads content sd w) = Inr False"
  by (rule test_capture_exception) (rule fail_with_raises)

lemma body_refused_nonempty: "body_refused \<noteq> []"
  by (simp add: body_refused_def)

lemma body_invalid_key_nonempty: "body_invalid_key \<noteq> []"
  by (simp add: body_invalid_key_def)


text \<open>
  Where the content can be printed, and the network raises only exceptions of class
  \<^verbatim>\<open>Exception\<close>, no exception leaves any of the three functions;
  \<open>send_to_notion_lite\<close> and \<open>capture_to_notion_lite\<close> need no condition on the
  content, since every print of theirs that shows it is inside the \<^verbatim>\<open>try\<close>.
\<close>

lemma capture_functions_return_when_printable:
  assumes "\<forall>h q e. net h q = Inl e \<longrightarrow> isinstance_Exception e"
  shows "(\<exists>b. fst (send_to_notion_lite net loads content page_title w) = Inr b) \<and>
         (\<exists>p. fst (capture_to_notion_lite net loads content w) = Inr p) \<and>
         (encodable content \<longrightarrow>
            (\<exists>b. fst (test_capture net loads content show_details w) = Inr b))"
proof -
  from assms have net: "\<And>h q e. net h q = Inl e \<Longrightarrow> isinstance_Exception e"
    by blast
  have "\<exists>b. fst (send_to_notion_lite net loads content page_title w) = Inr b"
    by (rule raises_only_returns [OF send_never_raises [OF net]])
  moreover have "\<exists>p. fst (capture_to_notion_lite net loads content w) = Inr p"
    by (rule raises_only_returns [OF capture_never_raises [OF net]])
  moreover have "\<exists>b. fst (test_capture net loads content show_details w) = Inr b"
    if "encodable content"
    by (rule raises_only_returns [OF test_capture_never_raises [OF net that]])
  ultimately show ?thesis by blast
qed

section \<open>The claims\<close>

text \<open>
  C1 does not hold of \<open>test_capture\<close>. It prints the content before its \<^verbatim>\<open>try\<close>
  (line 46 of \<^verbatim>\<open>test-capture.py\<close>), so for a content with a lone surrogate, as a
  command-line argument with the byte 0x80 is, the \<^verbatim>\<open>UnicodeEncodeError\<close> of that
  print leaves the call, whatever the network would have answered: no result value
  is returned and nothing is sent.
\<close>

theorem test_capture_raises_on_lone_surrogate:
  "fst (test_capture net loads lone_surrogate show_details w)
     = Inl (UnicodeEncodeError
              (codec_error w (Line (''\<newline>[U+1F4DD] Testing Capture: '' @ quoted ''{}'')
                                [Fmt (PStr lone_surrogate)]))) \<and>
   sent (snd (test_capture net loads lone_surrogate show_details w)) = sent w"
  by (simp add: test_capture_unencodable [OF lone_surrogate_not_encodable])

text \<open>
  C2, as amended. When the service answers with status 200 and a body that decodes to
  a JSON object \<open>d\<close>, and the progress messages can be printed (the content, the page
  title and the identifiers in \<open>d\<close> hold no lone surrogate), all three functions
  report success. \<open>capture_to_notion_lite\<close> returns the decoded object itself beside
  \<open>True\<close>, so for the body \<^verbatim>\<open>{"blockId": "b1", "pageId": "p1"}\<close> its result carries
  both identifiers; \<open>send_to_notion_lite\<close> and \<open>test_capture\<close> return the bare
  \<open>True\<close>. The object may lack \<^verbatim>\<open>blockId\<close> and \<^verbatim>\<open>pageId\<close>: the call is a success
  all the same.
\<close>

theorem success_on_200_json_object:
  assumes "\<forall>q. net (sent w) q = Inr r"
    and "status_code r = 200"
    and "loads (text_str r) = Inr (PDict d)"
    and "encodable content"
    and "\<forall>t. page_title = Some t \<longrightarrow> encodable t"
    and "\<forall>s. map_of d ''blockId'' = Some (PStr s) \<longrightarrow> encodable s"
    and "\<forall>s. map_of d ''pageId'' = Some (PStr s) \<longrightarrow> encodable s"
  shows "fst (capture_to_notion_lite net loads content w) = Inr (True, PDict d) \<and>
         fst (send_to_notion_lite net loads content page_title w) = Inr True \<and>
         fst (test_capture net loads content show_details w) = Inr True"
proof -
  from assms(4) have short: "encodable (take 50 content)"
    by (rule encodable_take)
  from assms(5) have title: "case page_title of None \<Rightarrow> True | Some t \<Rightarrow> encodable t"
    by (cases page_title) simp_all
  have "fst (send_to_notion_lite net loads content page_title w) = Inr True"
    using assms(1-3) short title by (simp add: send_to_notion_lite_response)
  moreover have "fst (capture_to_notion_lite net loads content w) = Inr (True, PDict d)"
    using assms(1-3) short assms(6) by (rule capture_to_notion_lite_200)
  moreover have "fst (test_capture net loads content show_details w) = Inr True"
    using assms(1-4) assms(6,7) by (rule test_capture_200)
  ultimately show ?thesis by simp
qed

theorem success_on_200_json_object_witness:
  "(\<forall>q. respond \<lparr>status_code = 200, text_str = body_b1_p1\<rparr> (sent w0) q
           = Inr \<lparr>status_code = 200, text_str = body_b1_p1\<rparr>) \<and>
   status_code \<lparr>status_code = 200, text_str = body_b1_p1\<rparr> = 200 \<and>
   example_loads (text_str \<lparr>status_code = 200, text_str = body_b1_p1\<rparr>)
     = Inr (PDict [(''blockId'', PStr (plain ''b1'')), (''pageId'', PStr (plain ''p1''))]) \<and>
   encodable (plain ''Buy milk'') \<and>
   fst (capture_to_notion_lite (respond \<lparr>status_code = 200, text_str = body_b1_p1\<rparr>)
          example_loads (plain ''Buy milk'') w0)
     = Inr (True, PDict [(''blockId'', PStr (plain ''b1'')), (''pageId'', PStr (plain ''p1''))]) \<and>
   fst (send_to_notion_lite (respond \<lparr>status_code = 200, text_str = body_b1_p1\<rparr>)
          example_loads (plain ''Buy milk'') None w0) = Inr True \<and>
   fst (test_capture (respond \<lparr>status_code = 200, text_str = body_b1_p1\<rparr>)
          example_loads (plain ''Buy milk'') None w0) = Inr True"
proof -
  let ?r = "\<lparr>status_code = 200, text_str = body_b1_p1\<rparr>"
  let ?d = "[(''blockId'', PStr (plain ''b1'')), (''pageId'', PStr (plain ''p1''))]"
  have h1: "\<forall>q. respond ?r (sent w0) q = Inr ?r"
    by (rule respond_answers)
  have h2: "status_code ?r = 200"
    by simp
  have h3: "example_loads (text_str ?r) = Inr (PDict ?d)"
    by (simp add: example_loads_b1_p1)
  have h4: "encodable (plain ''Buy milk'')"
    by simp
  have h5: "\<forall>t. (None :: pystr option) = Some t \<longrightarrow> encodable t"
    by simp
  have h6: "\<forall>s. map_of ?d ''blockId'' = Some (PStr s) \<longrightarrow> encodable s"
    by auto
  have h7: "\<forall>s. map_of ?d ''pageId'' = Some (PStr s) \<longrightarrow> encodable s"
    by auto
  from success_on_200_json_object
         [of "respond ?r" w0 ?r example_loads ?d "plain ''Buy milk''" None None,
          OF h1 h2 h3 h4 h5 h6 h7] h1 h2 h3 h4
  show ?thesis by simp
qed

text \<open>
  C2 as stated fails for \<open>send_to_notion_lite\<close>: its result is the same \<open>True\<close>
  whether the service assigned \<^verbatim>\<open>b1\<close>/\<^verbatim>\<open>p1\<close> or \<^verbatim>\<open>b2\<close>/\<^verbatim>\<open>p2\<close>, so the
  identifiers are not in it.
\<close>

theorem send_to_notion_lite_result_without_ids:
  "fst (send_to_notion_lite (respond \<lparr>status_code = 200, text_str = body_b1_p1\<rparr>)
          example_loads (plain ''Buy milk'') None w0) = Inr True \<and>
   fst (send_to_notion_lite (respond \<lparr>status_code = 200, text_str = body_b2_p2\<rparr>)
          example_loads (plain ''Buy milk'') None w0) = Inr True \<and>
   example_loads body_b1_p1
     = Inr (PDict [(''blockId'', PStr (plain ''b1'')), (''pageId'', PStr (plain ''p1''))]) \<and>
   example_loads body_b2_p2
     = Inr (PDict [(''blockId'', PStr (plain ''b2'')), (''pageId'', PStr (plain ''p2''))])"
  by (simp add: send_to_notion_lite_respond example_loads_b1_p1 example_loads_b2_p2
        encodable_take)

text \<open>
  C3, as amended. When the transport fails before any response is received
  (connection refused, DNS failure, timeout), each function returns a failure result:
  \<open>send_to_notion_lite\<close> and \<open>test_capture\<close> return \<open>False\<close>, and
  \<open>capture_to_notion_lite\<close> returns \<open>False\<close> with the dict
  \<^verbatim>\<open>{"error": str(e)}\<close>. No error kind is part of the result. A call of
  \<open>test_capture\<close> whose opening print fails sends nothing, so no transport failure
  occurs in it.
\<close>

theorem transport_failure_gives_failure_result:
  assumes "\<forall>q. net (sent w) q = Inl e"
    and "is_transport_failure e"
  shows "fst (send_to_notion_lite net loads content page_title w) = Inr False \<and>
         fst (capture_to_notion_lite net loads content w)
           = Inr (False, PDict [(''error'', PStr (plain (str e)))]) \<and>
         (if encodable content
          then fst (test_capture net loads content show_details w) = Inr False
          else sent (snd (test_capture net loads content show_details w)) = sent w)"
proof -
  from assms(2) have exc: "isinstance_Exception e"
    by (rule transport_failure_is_Exception)
  have "fst (send_to_notion_lite net loads content page_title w) = Inr False"
    using assms(1) exc by (rule send_to_notion_lite_exception)
  moreover have "fst (capture_to_notion_lite net loads content w)
                   = Inr (False, PDict [(''error'', PStr (plain (str e)))])"
    using assms(1) exc by (rule capture_to_notion_lite_exception)
  moreover have "fst (test_capture net loads content show_details w) = Inr False"
    if "encodable content"
    using assms(1) exc that by (rule test_capture_exception)
  moreover have "sent (snd (test_capture net loads content show_details w)) = sent w"
    if "\<not> encodable content"
    using that by (simp add: test_capture_unencodable)
  ultimately show ?thesis by simp
qed

theorem transport_failure_gives_failure_result_witness:
  "(\<forall>q. fail_with (Timeout ''Read timed out.'') (sent w0) q = Inl (Timeout ''Read timed out.'')) \<and>
   is_transport_failure (Timeout ''Read timed out.'') \<and>
   encodable (plain ''Buy milk'') \<and>
   fst (send_to_notion_lite (fail_with (Timeout ''Read timed out.''))
          example_loads (plain ''Buy milk'') None w0) = Inr False \<and>
   fst (capture_to_notion_lite (fail_with (Timeout ''Read timed out.''))
          example_loads (plain ''Buy milk'') w0)
     = Inr (False, PDict [(''error'', PStr (plain ''Read timed out.''))]) \<and>
   fst (test_capture (fail_with (Timeout ''Read timed out.''))
          example_loads (plain ''Buy milk'') None w0) = Inr False"
proof -
  let ?e = "Timeout ''Read timed out.''"
  have h1: "\<forall>q. fail_with ?e (sent w0) q = Inl ?e"
    by (rule fail_with_raises)
  have h2: "is_transport_failure ?e"
    by simp
  from transport_failure_gives_failure_result
         [of "fail_with ?e" w0 ?e example_loads "plain ''Buy milk''" None None, OF h1 h2] h1 h2
  show ?thesis by simp
qed

text \<open>
  C3 as stated fails: the value returned after a refused connection is the value
  returned after an HTTP 500 response, in each of the three functions, so the caller
  sees no kind that sets a transport failure apart from a service error.
\<close>

theorem transport_failure_result_equals_http_error_result:
  "fst (send_to_notion_lite (fail_with (ConnectionError ''Connection refused''))
          example_loads (plain ''Buy milk'') None w0) = Inr False \<and>
   fst (send_to_notion_lite (respond \<lparr>status_code = 500, text_str = body_refused\<rparr>)
          example_loads (plain ''Buy milk'') None w0) = Inr False \<and>
   fst (capture_to_notion_lite (fail_with (ConnectionError ''Connection refused''))
          example_loads (plain ''Buy milk'') w0)
     = Inr (False, PDict [(''error'', PStr (plain ''Connection refused''))]) \<and>
   fst (capture_to_notion_lite (respond \<lparr>status_code = 500, text_str = body_refused\<rparr>)
          example_loads (plain ''Buy milk'') w0)
     = Inr (False, PDict [(''error'', PStr (plain ''Connection refused''))]) \<and>
   fst (test_capture (fail_with (ConnectionError ''Connection refused''))
          example_loads (plain ''Buy milk'') None w0) = Inr False \<and>
   fst (test_capture (respond \<lparr>status_code = 500, text_str = body_refused\<rparr>)
          example_loads (plain ''Buy milk'') None w0) = Inr False"
  by (simp add: send_to_notion_lite_respond send_to_notion_lite_fail_with
        capture_to_notion_lite_respond_not_200 capture_to_notion_lite_fail_with
        test_capture_respond_not_200 test_capture_fail_with
        example_loads_refused body_refused_nonempty)

text \<open>
  C4, as amended. When the service answers with status 401 and the body
  \<^verbatim>\<open>{"error":"invalid key"}\<close>, each function returns a failure result:
  \<open>send_to_notion_lite\<close> and \<open>test_capture\<close> return \<open>False\<close>,
  \<open>capture_to_notion_lite\<close> returns \<open>False\<close> with the decoded body. Only
  \<open>test_capture\<close> has a branch for 401, and what it adds is a printed line; no
  error kind is part of any result. A call of \<open>test_capture\<close> whose opening print
  fails sends nothing, so no response is received in it.
\<close>

theorem status_401_gives_failure_result:
  assumes "\<forall>q. net (sent w) q = Inr r"
    and "status_code r = 401"
    and "text_str r \<noteq> []"
    and "loads (text_str r) = Inr (PDict [(''error'', PStr (plain ''invalid key''))])"
  shows "fst (send_to_notion_lite net loads content page_title w) = Inr False \<and>
         fst (capture_to_notion_lite net loads content w)
           = Inr (False, PDict [(''error'', PStr (plain ''invalid key''))]) \<and>
         (if encodable content
          then fst (test_capture net loads content show_details w) = Inr False \<and>
               Line ''   [U+274C] Authentication failed'' []
                 \<in> set (stdout (snd (test_capture net loads content show_details w)))
          else sent (snd (test_capture net loads content show_details w)) = sent w)"
proof -
  from assms(2) have not_200: "status_code r \<noteq> 200"
    by simp
  have "fst (send_to_notion_lite net loads content page_title w) = Inr False"
    using assms(1) not_200 by (simp add: send_to_notion_lite_response)
  moreover have "fst (capture_to_notion_lite net loads content w)
                   = Inr (False, PDict [(''error'', PStr (plain ''invalid key''))])"
    using assms(3,4) capture_to_notion_lite_not_200 [of net w r loads content, OF assms(1) not_200]
    by simp
  moreover have "fst (test_capture net loads content show_details w) = Inr False"
    if "encodable content"
    using assms(1) not_200 that by (rule test_capture_not_200)
  moreover have "Line ''   [U+274C] Authentication failed'' []
                   \<in> set (stdout (snd (test_capture net loads content show_details w)))"
    if "encodable content"
    using assms(1,2,4) that by (rule test_capture_401_prints)
  moreover have "sent (snd (test_capture net loads content show_details w)) = sent w"
    if "\<not> encodable content"
    using that by (simp add: test_capture_unencodable)
  ultimately show ?thesis by simp
qed

theorem status_401_gives_failure_result_witness:
  "(\<forall>q. respond \<lparr>status_code = 401, text_str = body_invalid_key\<rparr> (sent w0) q
           = Inr \<lparr>status_code = 401, text_str = body_invalid_key\<rparr>) \<and>
   status_code \<lparr>status_code = 401, text_str = body_invalid_key\<rparr> = 401 \<and>
   text_str \<lparr>status_code = 401, text_str = body_invalid_key\<rparr> \<noteq> [] \<and>
   example_loads (text_str \<lparr>status_code = 401, text_str = body_invalid_key\<rparr>)
     = Inr (PDict [(''error'', PStr (plain ''invalid key''))]) \<and>
   encodable (plain ''Buy milk'') \<and>
   fst (send_to_notion_lite (respond \<lparr>status_code = 401, text_str = body_invalid_key\<rparr>)
          example_loads (plain ''Buy milk'') None w0) = Inr False \<and>
   fst (capture_to_notion_lite (respond \<lparr>status_code = 401, text_str = body_invalid_key\<rparr>)
          example_loads (plain ''Buy milk'') w0)
     = Inr (False, PDict [(''error'', PStr (plain ''invalid key''))]) \<and>
   fst (test_capture (respond \<lparr>status_code = 401, text_str = body_invalid_key\<rparr>)
          example_loads (plain ''Buy milk'') None w0) = Inr False"
proof -
  let ?r = "\<lparr>status_code = 401, text_str = body_invalid_key\<rparr>"
  have h1: "\<forall>q. respond ?r (sent w0) q = Inr ?r"
    by (rule respond_answers)
  have h2: "status_code ?r = 401"
    by simp
  have h3: "text_str ?r \<noteq> []"
    by (simp add: body_invalid_key_nonempty)
  have h4: "example_loads (text_str ?r) = Inr (PDict [(''error'', PStr (plain ''invalid key''))])"
    by (simp add: example_loads_invalid_key)
  from status_401_gives_failure_result
         [of "respond ?r" w0 ?r example_loads "plain ''Buy milk''" None None, OF h1 h2 h3 h4]
       h1 h2 h3 h4
  show ?thesis by simp
qed

text \<open>
  C4 as stated fails: with the same body, the value returned for status 401 is the
  value returned for status 400 and for status 500, in each of the three functions.
  The caller cannot tell an authentication failure from the other kinds.
\<close>

theorem status_401_result_equals_other_status_result:
  "fst (send_to_notion_lite (respond \<lparr>status_code = 401, text_str = body_invalid_key\<rparr>)
          example_loads (plain ''Buy milk'') None w0) = Inr False \<and>
   fst (send_to_notion_lite (respond \<lparr>status_code = 500, text_str = body_invalid_key\<rparr>)
          example_loads (plain ''Buy milk'') None w0) = Inr False \<and>
   fst (capture_to_notion_lite (respond \<lparr>status_code = 401, text_str = body_invalid_key\<rparr>)
          example_loads (plain ''Buy milk'') w0)
     = Inr (False, PDict [(''error'', PStr (plain ''invalid key''))]) \<and>
   fst (capture_to_notion_lite (respond \<lparr>status_code = 500, text_str = body_invalid_key\<rparr>)
          example_loads (plain ''Buy milk'') w0)
     = Inr (False, PDict [(''error'', PStr (plain ''invalid key''))]) \<and>
   fst (test_capture (respond \<lparr>status_code = 401, text_str = body_invalid_key\<rparr>)
          example_loads (plain ''Buy milk'') None w0) = Inr False \<and>
   fst (test_capture (respond \<lparr>status_code = 400, text_str = body_invalid_key\<rparr>)
          example_loads (plain ''Buy milk'') None w0) = Inr False"
  by (simp add: send_to_notion_lite_respond capture_to_notion_lite_respond_not_200
        test_capture_respond_not_200 example_loads_invalid_key body_invalid_key_nonempty)

text \<open>
  C5. For every content, page title and \<^verbatim>\<open>show_details\<close>, the JSON body handed to
  \<^verbatim>\<open>requests.post\<close> has exactly the three fields \<^verbatim>\<open>content\<close>, \<^verbatim>\<open>userId\<close> and
  \<^verbatim>\<open>pageTitle\<close>. \<open>send_to_notion_lite\<close> and \<open>capture_to_notion_lite\<close> always come
  to that call; \<open>test_capture\<close> comes to it when its opening print succeeds, and
  sends nothing otherwise.
\<close>

theorem request_body_has_exactly_three_fields:
  "(\<exists>q. sent (snd (send_to_notion_lite net loads content page_title w)) = sent w @ [q] \<and>
        map fst (json q) = [''content'', ''userId'', ''pageTitle'']) \<and>
   (\<exists>q. sent (snd (capture_to_notion_lite net loads content w)) = sent w @ [q] \<and>
        map fst (json q) = [''content'', ''userId'', ''pageTitle'']) \<and>
   (if encodable content
    then \<exists>q. sent (snd (test_capture net loads content show_details w)) = sent w @ [q] \<and>
             map fst (json q) = [''content'', ''userId'', ''pageTitle'']
    else sent (snd (test_capture net loads content show_details w)) = sent w)"
proof (cases "encodable content")
  case True
  with send_to_notion_lite_appends [of content page_title net loads]
    capture_to_notion_lite_appends [of content net loads]
    test_capture_appends [of content net loads show_details]
  show ?thesis by (simp add: appends_request_def)
next
  case False
  with send_to_notion_lite_appends [of content page_title net loads]
    capture_to_notion_lite_appends [of content net loads]
  show ?thesis by (simp add: appends_request_def test_capture_unencodable)
qed

text \<open>
  C6. For every content string (the empty string and strings that start with
  \<^verbatim>\<open>[]\<close> or \<^verbatim>\<open>[x]\<close> included), the \<^verbatim>\<open>content\<close> field of the request body is the
  input string itself: nothing is trimmed, rejected or rewritten. (\<open>test_capture\<close>
  sends nothing when its opening print fails.)
\<close>

theorem content_is_passed_through_unmodified:
  "(\<exists>q. sent (snd (send_to_notion_lite net loads content page_title w)) = sent w @ [q] \<and>
        map_of (json q) ''content'' = Some (PStr content)) \<and>
   (\<exists>q. sent (snd (capture_to_notion_lite net loads content w)) = sent w @ [q] \<and>
        map_of (json q) ''content'' = Some (PStr content)) \<and>
   (if encodable content
    then \<exists>q. sent (snd (test_capture net loads content show_details w)) = sent w @ [q] \<and>
             map_of (json q) ''content'' = Some (PStr content)
    else sent (snd (test_capture net loads content show_details w)) = sent w)"
proof (cases "encodable content")
  case True
  with send_to_notion_lite_appends [of content page_title net loads]
    capture_to_notion_lite_appends [of content net loads]
    test_capture_appends [of content net loads show_details]
  show ?thesis by (simp add: appends_request_def)
next
  case False
  with send_to_notion_lite_appends [of content page_title net loads]
    capture_to_notion_lite_appends [of content net loads]
  show ?thesis by (simp add: appends_request_def test_capture_unencodable)
qed

text \<open>
  C7. When the caller gives no page title, the \<^verbatim>\<open>pageTitle\<close> field of the request
  body is \<^verbatim>\<open>"Inbox"\<close>: \<open>send_to_notion_lite\<close> called without its second argument
  uses the default, and \<open>capture_to_notion_lite\<close> and \<open>test_capture\<close>, which take no
  page title, always send \<^verbatim>\<open>"Inbox"\<close>. (\<open>test_capture\<close> sends nothing when its
  opening print fails.)
\<close>

theorem default_page_title_is_Inbox:
  "(\<exists>q. sent (snd (send_to_notion_lite net loads content None w)) = sent w @ [q] \<and>
        map_of (json q) ''pageTitle'' = Some (PStr (plain ''Inbox''))) \<and>
   (\<exists>q. sent (snd (capture_to_notion_lite net loads content w)) = sent w @ [q] \<and>
        map_of (json q) ''pageTitle'' = Some (PStr (plain ''Inbox''))) \<and>
   (if encodable content
    then \<exists>q. sent (snd (test_capture net loads content show_details w)) = sent w @ [q] \<and>
             map_of (json q) ''pageTitle'' = Some (PStr (plain ''Inbox''))
    else sent (snd (test_capture net loads content show_details w)) = sent w)"
proof (cases "encodable content")
  case True
  with send_to_notion_lite_appends [of content None net loads]
    capture_to_notion_lite_appends [of content net loads]
    test_capture_appends [of content net loads show_details]
  show ?thesis by (simp add: appends_request_def)
next
  case False
  with send_to_notion_lite_appends [of content None net loads]
    capture_to_notion_lite_appends [of content net loads]
  show ?thesis by (simp add: appends_request_def test_capture_unencodable)
qed



text \<open>
  C9. Unless the response has status 200 and a body that decodes as JSON,
  \<open>send_to_notion_lite\<close> and \<open>test_capture\<close> return \<open>False\<close>. In particular a
  status 200 response whose body is not valid JSON is a failure: success needs both
  the status 200 and a decodable body. A call of \<open>test_capture\<close> whose opening print
  fails sends nothing, so no response is received in it.
\<close>

theorem failure_unless_200_and_json:
  assumes "\<forall>q. net (sent w) q = Inr r"
    and "status_code r \<noteq> 200 \<or> (\<exists>m. loads (text_str r) = Inl m)"
  shows "fst (send_to_notion_lite net loads content page_title w) = Inr False \<and>
         (if encodable content
          then fst (test_capture net loads content show_details w) = Inr False
          else sent (snd (test_capture net loads content show_details w)) = sent w)"
proof -
  have "fst (send_to_notion_lite net loads content page_title w) = Inr False"
    using assms by (auto simp add: send_to_notion_lite_response)
  moreover have "fst (test_capture net loads content show_details w) = Inr False"
    if printable: "encodable content"
  proof (cases "status_code r = 200")
    case True
    with assms(2) obtain m where "loads (text_str r) = Inl m"
      by blast
    with assms(1) show ?thesis
      using printable by (rule test_capture_undecodable)
  next
    case False
    with assms(1) show ?thesis
      using printable by (rule test_capture_not_200)
  qed
  moreover have "sent (snd (test_capture net loads content show_details w)) = sent w"
    if "\<not> encodable content"
    using that by (simp add: test_capture_unencodable)
  ultimately show ?thesis by simp
qed

theorem failure_unless_200_and_json_witness:
  "(\<forall>q. respond \<lparr>status_code = 200, text_str = body_html\<rparr> (sent w0) q
           = Inr \<lparr>status_code = 200, text_str = body_html\<rparr>) \<and>
   status_code \<lparr>status_code = 200, text_str = body_html\<rparr> = 200 \<and>
   example_loads (text_str \<lparr>status_code = 200, text_str = body_html\<rparr>)
     = Inl ''Expecting value: line 1 column 1 (char 0)'' \<and>
   encodable (plain ''Buy milk'') \<and>
   fst (send_to_notion_lite (respond \<lparr>status_code = 200, text_str = body_html\<rparr>)
          example_loads (plain ''Buy milk'') None w0) = Inr False \<and>
   fst (test_capture (respond \<lparr>status_code = 200, text_str = body_html\<rparr>)
          example_loads (plain ''Buy milk'') None w0) = Inr False"
proof -
  let ?r = "\<lparr>status_code = 200, text_str = body_html\<rparr>"
  have h1: "\<forall>q. respond ?r (sent w0) q = Inr ?r"
    by (rule respond_answers)
  have h3: "example_loads (text_str ?r) = Inl ''Expecting value: line 1 column 1 (char 0)''"
    by (simp add: example_loads_html)
  then have h2: "status_code ?r \<noteq> 200 \<or> (\<exists>m. example_loads (text_str ?r) = Inl m)"
    by blast
  from failure_unless_200_and_json
         [of "respond ?r" w0 ?r example_loads "plain ''Buy milk''" None None, OF h1 h2] h1 h3
  show ?thesis by simp
qed



end
